theory Spec2Isabelle
  imports Main
begin

section \<open>The HTTP boundary\<close>

text \<open>
  Every page of the front end talks to the backend through \<^verbatim>\<open>fetch\<close>. What the backend
  answers is an input of the model: a handler takes the outcome of its request as an
  argument. \<^verbatim>\<open>fetch\<close> either rejects (the request itself failed; the thrown value may or
  may not carry a \<^verbatim>\<open>message\<close>) or resolves to a response with a status code, a body text
  (\<^verbatim>\<open>res.text()\<close>) and the outcome of \<^verbatim>\<open>res.json()\<close>, which throws on a body that is not
  JSON.
\<close>

datatype 'a json_result = JsonThrows "string option" | Json 'a

datatype 'a response = Threw "string option" | Response nat string "'a json_result"

text \<open>\<^verbatim>\<open>res.ok\<close>: the status is in the range 200-299.\<close>

definition ok :: "nat \<Rightarrow> bool" where
  "ok st = (200 \<le> st \<and> st \<le> 299)"

text \<open>\<^verbatim>\<open>err.message ?? fallback\<close>\<close>

definition message_or :: "string option \<Rightarrow> string \<Rightarrow> string" where
  "message_or m fallback = (case m of None \<Rightarrow> fallback | Some x \<Rightarrow> x)"

text \<open>
  The body of the \<^verbatim>\<open>try\<close> block the four stage handlers share:
  \<^verbatim>\<open>if (!res.ok) throw new Error(await res.text()); const data = await res.json();\<close>
  It yields the parsed body, or the message that the \<^verbatim>\<open>catch\<close> block passes to
  \<^verbatim>\<open>setError\<close>.
\<close>

definition try_fetch_json :: "string \<Rightarrow> 'a response \<Rightarrow> string + 'a" where
  "try_fetch_json fallback r =
     (case r of
        Threw m \<Rightarrow> Inl (message_or m fallback)
      | Response st body js \<Rightarrow>
          if \<not> ok st then Inl body
          else (case js of
                  JsonThrows m \<Rightarrow> Inl (message_or m fallback)
                | Json d \<Rightarrow> Inr d))"

text \<open>A request whose transport failed: \<^verbatim>\<open>fetch\<close> threw, or the answer is not 2xx.\<close>

definition transport_failed :: "'a response \<Rightarrow> bool" where
  "transport_failed r = (case r of Threw m \<Rightarrow> True | Response st body js \<Rightarrow> \<not> ok st)"

text \<open>
  The requests a page issues, in the order of the \<^verbatim>\<open>fetch\<close> calls. The log is ghost state:
  it records which requests went out, so that "no request is issued" and "exactly one
  request" can be stated. \<^verbatim>\<open>Post_generate_shap_e\<close> and \<^verbatim>\<open>Post_generate_meshy\<close> carry the
  query parameter as the page holds it (the code sends \<^verbatim>\<open>Number\<close> of it).
\<close>

datatype request =
    Post_generate_2d string "string option"
  | Post_refine_2d int string
  | Post_generate_shap_e string
  | Delete_gallery int
  | Post_generate_meshy string
  | Get_meshy_task string
  | Get_meshy_model int

text \<open>State every page has: the \<^verbatim>\<open>loading\<close> flag and the log of its requests.\<close>

record page =
  loading :: bool
  requests :: "request list"

text \<open>The pages with an \<^verbatim>\<open>error\<close> state (\<^verbatim>\<open>null\<close> is \<open>None\<close>).\<close>

record epage = page +
  error :: "string option"

section \<open>The final-model page (FinalPage)\<close>

text \<open>
  The task object the backend returns, with the fields the page reads. A field that is
  absent (or \<^verbatim>\<open>null\<close>) is \<open>None\<close>.
\<close>

record task =
  task_id :: "string option"
  status :: "string option"
  progress :: "int option"
  error_message :: "string option"
  gallery_item_id :: "int option"

record final_model =
  obj_url :: "string option"
  fbx_url :: "string option"
  texture_url :: "string option"

text \<open>
  The component state: the four \<^verbatim>\<open>useState\<close> cells and the query parameter, and what the
  runtime holds for the component: the live timer of the polling effect (its handle and
  the \<^verbatim>\<open>task_id\<close> its callback closed over), the number of timers created so far (the
  next handle), and the poll callbacks suspended at \<^verbatim>\<open>await fetch\<close>, each with the handle
  of the timer that started it.
\<close>

record final_page = epage +
  prototypeId :: "string option"
  task :: "task option"
  model :: "final_model option"
  interval :: "(nat \<times> string) option"
  timers :: nat
  inflight :: "nat list"

definition init_final :: "string option \<Rightarrow> final_page" where
  "init_final pid =
     \<lparr>loading = False, requests = [], error = None, prototypeId = pid, task = None,
      model = None, interval = None, timers = 0, inflight = []\<rparr>"

text \<open>Truthiness of a number that may be absent.\<close>

definition truthy_num :: "int option \<Rightarrow> bool" where
  "truthy_num v = (case v of None \<Rightarrow> False | Some n \<Rightarrow> n \<noteq> 0)"

text \<open>\<^verbatim>\<open>task?.task_id\<close>, \<^verbatim>\<open>task?.status\<close>, \<^verbatim>\<open>task?.gallery_item_id\<close>, \<^verbatim>\<open>task?.progress\<close>\<close>

definition task_id_of :: "task option \<Rightarrow> string option" where
  "task_id_of t = (case t of None \<Rightarrow> None | Some d \<Rightarrow> task_id d)"

definition status_of :: "task option \<Rightarrow> string option" where
  "status_of t = (case t of None \<Rightarrow> None | Some d \<Rightarrow> status d)"

definition gallery_item_id_of :: "task option \<Rightarrow> int option" where
  "gallery_item_id_of t = (case t of None \<Rightarrow> None | Some d \<Rightarrow> gallery_item_id d)"

definition progress_of :: "task option \<Rightarrow> int option" where
  "progress_of t = (case t of None \<Rightarrow> None | Some d \<Rightarrow> progress d)"

text \<open>\<^verbatim>\<open>data.status === "SUCCEEDED" || data.status === "FAILED"\<close>\<close>

definition terminal :: "string option \<Rightarrow> bool" where
  "terminal st = (st = Some ''SUCCEEDED'' \<or> st = Some ''FAILED'')"

text \<open>\<^verbatim>\<open>clearInterval(h)\<close>: stops the timer with this handle, if it is the live one.\<close>

definition clearInterval :: "nat \<Rightarrow> final_page \<Rightarrow> final_page" where
  "clearInterval h s =
     (case interval s of
        None \<Rightarrow> s
      | Some (h', tid) \<Rightarrow> if h' = h then s\<lparr>interval := None\<rparr> else s)"

text \<open>
  The polling effect, with dependency \<^verbatim>\<open>task?.task_id\<close>. When the dependency differs from
  its value \<open>old\<close> at the previous render, the cleanup of the previous run stops its timer
  and the effect runs again: a task with a truthy id gets a new timer.
\<close>

definition pollingEffect :: "task option \<Rightarrow> final_page \<Rightarrow> final_page" where
  "pollingEffect old s =
     (if task_id_of old = task_id_of (task s) then s
      else (case task_id_of (task s) of
              None \<Rightarrow> s\<lparr>interval := None\<rparr>
            | Some tid \<Rightarrow>
                if tid = [] then s\<lparr>interval := None\<rparr>
                else s\<lparr>interval := Some (timers s, tid), timers := Suc (timers s)\<rparr>))"

text \<open>
  The effect that fetches the final model, with dependencies
  \<^verbatim>\<open>[task?.gallery_item_id, task?.status]\<close>. It runs when one of them differs from the
  previous render, returns at once when the task has no truthy \<^verbatim>\<open>gallery_item_id\<close>, and
  otherwise issues one request; \<open>rm\<close> is the outcome of that request. Only a 2xx answer
  is stored, errors are logged to the console.
\<close>

definition modelEffect :: "task option \<Rightarrow> final_model option response \<Rightarrow> final_page \<Rightarrow> final_page" where
  "modelEffect old rm s =
     (if gallery_item_id_of old = gallery_item_id_of (task s) \<and> status_of old = status_of (task s)
      then s
      else (case gallery_item_id_of (task s) of
              None \<Rightarrow> s
            | Some g \<Rightarrow>
                if g = 0 then s
                else (let s1 = s\<lparr>requests := requests s @ [Get_meshy_model g]\<rparr>
                      in case rm of
                           Threw m \<Rightarrow> s1
                         | Response st body js \<Rightarrow>
                             if ok st
                             then (case js of JsonThrows m \<Rightarrow> s1 | Json d \<Rightarrow> s1\<lparr>model := d\<rparr>)
                             else s1)))"

text \<open>Both effects, after a render in which the task was \<open>old\<close> before.\<close>

definition effects :: "task option \<Rightarrow> final_model option response \<Rightarrow> final_page \<Rightarrow> final_page" where
  "effects old rm s = modelEffect old rm (pollingEffect old s)"

text \<open>
  \<^verbatim>\<open>startTask\<close>: \<open>r\<close> is the outcome of the POST, \<open>rm\<close> the outcome of the model fetch the
  new task may trigger. The button is disabled while \<^verbatim>\<open>loading\<close> is set, so one start is
  under way at a time; the model treats the start and the model fetch as answered before
  the next event, and keeps only the poll requests outstanding, which the timer issues
  on its own.
\<close>

definition startTask ::
  "task option response \<Rightarrow> final_model option response \<Rightarrow> final_page \<Rightarrow> final_page" where
  "startTask r rm s =
     (case prototypeId s of
        None \<Rightarrow> s
      | Some pid \<Rightarrow>
          if pid = [] then s
          else (let s1 = s\<lparr>loading := True, error := None,
                           requests := requests s @ [Post_generate_meshy pid]\<rparr>;
                    s2 = (case try_fetch_json ''Failed to start Meshy task'' r of
                            Inl msg \<Rightarrow> s1\<lparr>error := Some msg\<rparr>
                          | Inr data \<Rightarrow> s1\<lparr>task := data\<rparr>)
                in effects (task s) rm (s2\<lparr>loading := False\<rparr>)))"

text \<open>
  The timer fires: the callback of the live timer starts and suspends at its \<^verbatim>\<open>fetch\<close>.
  Without a live timer there is no callback to run.
\<close>

definition fire :: "final_page \<Rightarrow> final_page" where
  "fire s =
     (case interval s of
        None \<Rightarrow> s
      | Some (h, tid) \<Rightarrow>
          s\<lparr>requests := requests s @ [Get_meshy_task tid], inflight := inflight s @ [h]\<rparr>)"

text \<open>
  The rest of the callback of timer \<open>h\<close>, once its \<^verbatim>\<open>fetch\<close> has settled with \<open>r\<close>. A body
  that parses to \<^verbatim>\<open>null\<close> is stored, and reading \<^verbatim>\<open>data.status\<close> then throws into the
  \<^verbatim>\<open>catch\<close> block.
\<close>

definition pollResume :: "nat \<Rightarrow> task option response \<Rightarrow> final_page \<Rightarrow> final_page" where
  "pollResume h r s =
     (case r of
        Threw m \<Rightarrow> s
      | Response st body js \<Rightarrow>
          if \<not> ok st then s
          else (case js of
                  JsonThrows m \<Rightarrow> s
                | Json data \<Rightarrow>
                    (let s1 = s\<lparr>task := data\<rparr>
                     in case data of
                          None \<Rightarrow> s1
                        | Some d \<Rightarrow> if terminal (status d) then clearInterval h s1 else s1)))"

text \<open>
  The \<open>k\<close>-th suspended poll callback resumes with the outcome \<open>r\<close> of its request, and
  the effects run after the render it causes. Callbacks resume in the order the
  responses arrive, which need not be the order of the requests.
\<close>

definition deliver ::
  "nat \<Rightarrow> task option response \<Rightarrow> final_model option response \<Rightarrow> final_page \<Rightarrow> final_page" where
  "deliver k r rm s =
     (if k < length (inflight s)
      then effects (task s) rm
             (pollResume (inflight s ! k) r
                (s\<lparr>inflight := take k (inflight s) @ drop (Suc k) (inflight s)\<rparr>))
      else s)"

text \<open>
  A poll tick whose request is answered before anything else happens: the timer fires
  and the callback it started resumes.
\<close>

definition pollTick ::
  "task option response \<Rightarrow> final_model option response \<Rightarrow> final_page \<Rightarrow> final_page" where
  "pollTick r rm s = deliver (length (inflight s)) r rm (fire s)"

text \<open>The number of model fetches and of poll requests a page has issued.\<close>

fun is_model_fetch :: "request \<Rightarrow> bool" where
  "is_model_fetch (Get_meshy_model g) = True"
| "is_model_fetch q = False"

fun is_poll :: "request \<Rightarrow> bool" where
  "is_poll (Get_meshy_task t) = True"
| "is_poll q = False"

definition model_fetches :: "final_page \<Rightarrow> nat" where
  "model_fetches s = length (filter is_model_fetch (requests s))"

definition polls :: "final_page \<Rightarrow> nat" where
  "polls s = length (filter is_poll (requests s))"

section \<open>The 2D concept page (TwoDPage)\<close>

text \<open>
  \<^verbatim>\<open>String.prototype.trim\<close> strips white space at both ends. A string is modelled by
  8-bit characters, so the white space is tab, line feed, vertical tab, form feed,
  carriage return, space and the no-break space; the Unicode spaces beyond U+00FF that
  \<^verbatim>\<open>trim\<close> also strips have no character here.
\<close>

definition is_space :: "char \<Rightarrow> bool" where
  "is_space c =
     (c = CHR 0x09 \<or> c = CHR 0x0A \<or> c = CHR 0x0B \<or> c = CHR 0x0C \<or> c = CHR 0x0D \<or>
      c = CHR 0x20 \<or> c = CHR 0xA0)"

definition trim :: "string \<Rightarrow> string" where
  "trim s = rev (dropWhile is_space (rev (dropWhile is_space s)))"

text \<open>
  The component state. The elements of \<^verbatim>\<open>results\<close> are the parsed response bodies, which
  the handlers store and never inspect, so their type is a parameter.
\<close>

record 'a twod_page = epage +
  prompt :: string
  refinementNotes :: string
  results :: "'a list"

text \<open>\<^verbatim>\<open>handleGenerate\<close>; \<^verbatim>\<open>refinementNotes || undefined\<close> drops empty notes from the body.\<close>

definition handleGenerate :: "'a response \<Rightarrow> 'a twod_page \<Rightarrow> 'a twod_page" where
  "handleGenerate r s =
     (if trim (prompt s) = [] then s
      else (let s1 = s\<lparr>loading := True, error := None,
                       requests := requests s @
                         [Post_generate_2d (prompt s)
                            (if refinementNotes s = [] then None else Some (refinementNotes s))]\<rparr>;
                s2 = (case try_fetch_json ''Failed to generate image'' r of
                        Inl msg \<Rightarrow> s1\<lparr>error := Some msg\<rparr>
                      | Inr data \<Rightarrow> s1\<lparr>results := data # results s1\<rparr>)
            in s2\<lparr>loading := False\<rparr>))"

text \<open>\<^verbatim>\<open>handleRefine(id, refinementText)\<close>\<close>

definition handleRefine :: "int \<Rightarrow> string \<Rightarrow> 'a response \<Rightarrow> 'a twod_page \<Rightarrow> 'a twod_page" where
  "handleRefine image_id refinementText r s =
     (if trim refinementText = [] then s
      else (let s1 = s\<lparr>loading := True, error := None,
                       requests := requests s @ [Post_refine_2d image_id refinementText]\<rparr>;
                s2 = (case try_fetch_json ''Failed to refine image'' r of
                        Inl msg \<Rightarrow> s1\<lparr>error := Some msg\<rparr>
                      | Inr data \<Rightarrow> s1\<lparr>results := data # results s1\<rparr>)
            in s2\<lparr>loading := False\<rparr>))"

section \<open>The prototype page (PrototypePage)\<close>

record ('i, 'p) prototype_page = epage +
  imageId :: "string option"
  image :: "'i option"
  prototype :: "'p option"

text \<open>\<^verbatim>\<open>handleGeneratePrototype\<close>; the parsed body may be \<^verbatim>\<open>null\<close>, which is \<open>None\<close>.\<close>

definition handleGeneratePrototype ::
  "'p option response \<Rightarrow> ('i, 'p) prototype_page \<Rightarrow> ('i, 'p) prototype_page" where
  "handleGeneratePrototype r s =
     (case imageId s of
        None \<Rightarrow> s
      | Some iid \<Rightarrow>
          if iid = [] then s
          else (let s1 = s\<lparr>loading := True, error := None,
                           requests := requests s @ [Post_generate_shap_e iid]\<rparr>;
                    s2 = (case try_fetch_json ''Failed to generate prototype'' r of
                            Inl msg \<Rightarrow> s1\<lparr>error := Some msg\<rparr>
                          | Inr data \<Rightarrow> s1\<lparr>prototype := data\<rparr>)
                in s2\<lparr>loading := False\<rparr>))"

section \<open>The gallery page (GalleryPage)\<close>

text \<open>
  A gallery item is an object with an \<^verbatim>\<open>id\<close>; the record is extensible, so an item may carry
  any further fields (name, gif_url, prompt).
\<close>

record gallery_item =
  ident :: int

record 'a gallery_page = page +
  items :: "'a gallery_item_scheme list"

text \<open>
  \<^verbatim>\<open>handleDelete(id)\<close>: the response is awaited and not looked at; only a rejected
  \<^verbatim>\<open>fetch\<close> skips the update of the list.
\<close>

definition handleDelete :: "int \<Rightarrow> unit response \<Rightarrow> 'a gallery_page \<Rightarrow> 'a gallery_page" where
  "handleDelete x r s =
     (let s1 = s\<lparr>requests := requests s @ [Delete_gallery x]\<rparr>
      in case r of
           Threw m \<Rightarrow> s1
         | Response st body js \<Rightarrow> s1\<lparr>items := filter (\<lambda>i. ident i \<noteq> x) (items s1)\<rparr>)"

section \<open>The backend's registry\<close>

text \<open>
  The backend behind the HTTP interface is not part of the front-end sources. Two of its
  operations are modelled from the specification's data model (section 3), registry
  contract (section 4.1) and coordinator table (section 4.4).
\<close>

datatype api_error = ValidationError | NotFoundError | ConflictError

datatype job_status = PENDING | IN_PROGRESS | SUCCEEDED | FAILED

record finalization_job =
  taskId :: string
  galleryItemId :: int
  job_status :: job_status
  job_progress :: nat
  errorMessage :: "string option"

record ('i, 'p, 'g) registry =
  conceptImages :: "int \<rightharpoonup> 'i"
  prototypes :: "int \<rightharpoonup> 'p"
  galleryItems :: "int \<rightharpoonup> 'g"
  jobs :: "finalization_job list"

definition non_terminal :: "finalization_job \<Rightarrow> bool" where
  "non_terminal j = (job_status j = PENDING \<or> job_status j = IN_PROGRESS)"

definition jobs_of :: "int \<Rightarrow> ('i, 'p, 'g) registry \<Rightarrow> finalization_job list" where
  "jobs_of g reg = filter (\<lambda>j. galleryItemId j = g) (jobs reg)"

definition live_job :: "int \<Rightarrow> ('i, 'p, 'g) registry \<Rightarrow> bool" where
  "live_job g reg = list_ex non_terminal (jobs_of g reg)"

text \<open>
  Modelled from the spec: the backend's "generate final model" operation, which is not in
  the front-end sources. Its precondition is that the gallery item id resolves and that
  the item has no live (non-terminal) job; it fails with NotFoundError or ConflictError,
  and otherwise creates a job in state PENDING with progress 0. The task id \<open>tid\<close> comes
  from the external service. A failed operation leaves the registry as it was.
\<close>

definition start_finalization ::
  "string \<Rightarrow> int \<Rightarrow> ('i, 'p, 'g) registry \<Rightarrow> (api_error + finalization_job) \<times> ('i, 'p, 'g) registry" where
  "start_finalization tid g reg =
     (if galleryItems reg g = None then (Inl NotFoundError, reg)
      else if live_job g reg then (Inl ConflictError, reg)
      else (let j = \<lparr>taskId = tid, galleryItemId = g, job_status = PENDING, job_progress = 0,
                      errorMessage = None\<rparr>
            in (Inr j, reg\<lparr>jobs := jobs reg @ [j]\<rparr>)))"

text \<open>
  Modelled from the spec: the registry's \<^verbatim>\<open>delete(galleryItemId)\<close>, which is not in the
  front-end sources. It removes only the GalleryItem row and returns NotFoundError if the
  row is absent.
\<close>

definition delete_gallery_item ::
  "int \<Rightarrow> ('i, 'p, 'g) registry \<Rightarrow> (api_error + unit) \<times> ('i, 'p, 'g) registry" where
  "delete_gallery_item g reg =
     (if galleryItems reg g = None then (Inl NotFoundError, reg)
      else (Inr (), reg\<lparr>galleryItems := (galleryItems reg)(g := None)\<rparr>))"

section \<open>Example data\<close>

text \<open>
  A job of gallery item 1 with task id \<^verbatim>\<open>t1\<close>, a 2xx answer carrying a parsed body, a 404
  answer, and the final page after a start that the backend accepted with the job in
  state PENDING.
\<close>

definition example_job :: "string \<Rightarrow> int \<Rightarrow> task option" where
  "example_job st p =
     Some \<lparr>task_id = Some ''t1'', status = Some st, progress = Some p, error_message = None,
           gallery_item_id = Some 1\<rparr>"

definition example_ok :: "'a \<Rightarrow> 'a response" where
  "example_ok d = Response 200 [] (Json d)"

definition example_not_found :: "'a response" where
  "example_not_found = Response 404 ''Not Found'' (JsonThrows None)"

definition example_started :: final_page where
  "example_started =
     startTask (example_ok (example_job ''PENDING'' 0)) example_not_found (init_final (Some ''1''))"

text \<open>A 2D page with one recorded image and a prompt of blanks; one with a real prompt.\<close>

definition example_blank :: "string twod_page" where
  "example_blank =
     \<lparr>loading = False, requests = [], error = None, prompt = ''   '', refinementNotes = [],
      results = [''image 1'']\<rparr>"

definition example_twod :: "string twod_page" where
  "example_twod = example_blank\<lparr>prompt := ''a red cube''\<rparr>"

definition example_prototype_page :: "(string, string) prototype_page" where
  "example_prototype_page =
     \<lparr>loading = False, requests = [], error = None, imageId = Some ''1'', image = None,
      prototype = None\<rparr>"

definition example_gallery :: "unit gallery_page" where
  "example_gallery =
     \<lparr>loading = False, requests = [], items = [\<lparr>ident = 1\<rparr>, \<lparr>ident = 2\<rparr>, \<lparr>ident = 3\<rparr>]\<rparr>"

definition example_registry :: "(string, string, string) registry" where
  "example_registry =
     \<lparr>conceptImages = [1 \<mapsto> ''a red cube''], prototypes = [1 \<mapsto> ''prototype 1''],
      galleryItems = [1 \<mapsto> ''gallery item 1''], jobs = []\<rparr>"

text \<open>The same registry while a job of gallery item 1 is in progress.\<close>

definition example_registry_busy :: "(string, string, string) registry" where
  "example_registry_busy =
     example_registry\<lparr>jobs :=
       [\<lparr>taskId = ''t1'', galleryItemId = 1, job_status = IN_PROGRESS, job_progress = 40,
         errorMessage = None\<rparr>]\<rparr>"

section \<open>Facts about the final-model page\<close>

lemma task_pollingEffect: "task (pollingEffect old s) = task s"
  by (simp add: pollingEffect_def split: option.splits)

lemma task_modelEffect: "task (modelEffect old rm s) = task s"
  by (simp add: modelEffect_def Let_def split: option.splits response.splits json_result.splits)

lemma task_effects: "task (effects old rm s) = task s"
  by (simp add: effects_def task_modelEffect task_pollingEffect)

lemma task_clearInterval: "task (clearInterval h s) = task s"
  by (simp add: clearInterval_def split: option.splits)

lemma task_pollResume_ok: "ok st \<Longrightarrow> task (pollResume h (Response st body (Json data)) s) = data"
  by (simp add: pollResume_def Let_def task_clearInterval split: option.splits)

lemma pollResume_failed: "transport_failed r \<Longrightarrow> pollResume h r s = s"
  by (simp add: pollResume_def transport_failed_def split: response.splits)

lemma effects_same_task: "task s = old \<Longrightarrow> effects old rm s = s"
  by (simp add: effects_def modelEffect_def pollingEffect_def)

lemma try_fetch_json_not_ok: "\<not> ok st \<Longrightarrow> try_fetch_json fallback (Response st body js) = Inl body"
  by (simp add: try_fetch_json_def)

lemma try_fetch_json_ok: "ok st \<Longrightarrow> try_fetch_json fallback (Response st body (Json d)) = Inr d"
  by (simp add: try_fetch_json_def)

text \<open>
  C1 (as amended). The page does not compare progress values: a poll tick that is
  answered with a 2xx status and a body that parses adopts the response verbatim, so the
  recorded task is exactly the reported one, whatever progress was recorded before.
\<close>

theorem poll_adopts_response_verbatim:
  assumes "interval s = Some (h, tid)" and "ok st"
  shows "task (pollTick (Response st body (Json data)) rm s) = data"
  using assms
  by (simp add: pollTick_def deliver_def fire_def task_effects task_pollResume_ok)

theorem poll_adopts_response_verbatim_witness:
  "interval example_started = Some (0, ''t1'') \<and> ok 200 \<and>
   task (pollTick (Response 200 [] (Json (example_job ''IN_PROGRESS'' 40))) example_not_found
           example_started) = example_job ''IN_PROGRESS'' 40"
proof -
  have a: "interval example_started = Some (0, ''t1'')"
    by code_simp
  have b: "ok 200"
    by (simp add: ok_def)
  from poll_adopts_response_verbatim [OF a b, of "[]" "example_job ''IN_PROGRESS'' 40"
      example_not_found] a b
  show ?thesis by simp
qed

text \<open>
  C1 as stated fails: after a response with progress 40 is recorded, a later response
  that reports progress 20 with the non-terminal status IN_PROGRESS is adopted.
\<close>

theorem progress_moves_backward:
  "progress_of (task (pollTick (example_ok (example_job ''IN_PROGRESS'' 40)) example_not_found
      example_started)) = Some 40 \<and>
   \<not> terminal (Some ''IN_PROGRESS'') \<and>
   progress_of (task (pollTick (example_ok (example_job ''IN_PROGRESS'' 20)) example_not_found
      (pollTick (example_ok (example_job ''IN_PROGRESS'' 40)) example_not_found
         example_started))) = Some 20"
  by code_simp

text \<open>
  C3. A poll whose request fails (\<^verbatim>\<open>fetch\<close> throws, or the answer is not 2xx) changes
  nothing but the bookkeeping of requests: the recorded task (status, progress, error
  message), the error and the model are as before, and the timer stays live, so the next
  tick is still scheduled.
\<close>

theorem failed_poll_leaves_job_unchanged:
  assumes "transport_failed r"
  shows "(k < length (inflight s) \<longrightarrow>
            deliver k r rm s = s\<lparr>inflight := take k (inflight s) @ drop (Suc k) (inflight s)\<rparr>) \<and>
         (interval s = Some (h, tid) \<longrightarrow>
            pollTick r rm s = s\<lparr>requests := requests s @ [Get_meshy_task tid]\<rparr> \<and>
            task (pollTick r rm s) = task s \<and>
            interval (pollTick r rm s) = Some (h, tid))"
  using assms
  by (simp add: pollTick_def deliver_def fire_def pollResume_failed effects_same_task)

theorem failed_poll_leaves_job_unchanged_witness:
  "transport_failed (example_not_found :: task option response) \<and>
   interval example_started = Some (0, ''t1'') \<and>
   task (pollTick example_not_found example_not_found example_started) = task example_started \<and>
   interval (pollTick example_not_found example_not_found example_started) = Some (0, ''t1'')"
proof -
  have a: "transport_failed (example_not_found :: task option response)"
    by (simp add: transport_failed_def example_not_found_def ok_def)
  have b: "interval example_started = Some (0, ''t1'')"
    by code_simp
  from failed_poll_leaves_job_unchanged [OF a, of 0 example_started example_not_found 0 "''t1''"] a b
  show ?thesis by simp
qed

lemma interval_modelEffect: "interval (modelEffect old rm s) = interval s"
  by (simp add: modelEffect_def Let_def split: option.splits response.splits json_result.splits)

lemma requests_pollingEffect: "requests (pollingEffect old s) = requests s"
  by (simp add: pollingEffect_def split: option.splits)

lemma requests_clearInterval: "requests (clearInterval h s) = requests s"
  by (simp add: clearInterval_def split: option.splits)

lemma requests_pollResume: "requests (pollResume h r s) = requests s"
  by (simp add: pollResume_def Let_def requests_clearInterval
      split: response.splits json_result.splits option.splits)

lemma requests_modelEffect:
  "requests (modelEffect old rm s) =
     requests s @
       (if gallery_item_id_of old = gallery_item_id_of (task s) \<and> status_of old = status_of (task s)
        then []
        else (case gallery_item_id_of (task s) of
                None \<Rightarrow> []
              | Some g \<Rightarrow> if g = 0 then [] else [Get_meshy_model g]))"
  by (simp add: modelEffect_def Let_def split: option.splits response.splits json_result.splits)

lemma model_modelEffect_failed: "transport_failed rm \<Longrightarrow> model (modelEffect old rm s) = model s"
  by (simp add: modelEffect_def Let_def transport_failed_def
      split: option.splits response.splits json_result.splits)

lemma model_pollingEffect: "model (pollingEffect old s) = model s"
  by (simp add: pollingEffect_def split: option.splits)

lemma model_clearInterval: "model (clearInterval h s) = model s"
  by (simp add: clearInterval_def split: option.splits)

lemma model_pollResume: "model (pollResume h r s) = model s"
  by (simp add: pollResume_def Let_def model_clearInterval
      split: response.splits json_result.splits option.splits)

text \<open>
  When a tick is answered at once with a terminal status for the job the timer polls,
  the timer is cleared: no timer is live afterwards, and a timer event finds no callback
  to run, so no further poll request is issued.
\<close>

lemma terminal_poll_stops_timer:
  assumes "interval s = Some (h, tid)" and "task_id_of (task s) = Some tid"
    and "ok st" and "terminal (status d)" and "task_id d = Some tid"
  shows "interval (pollTick (Response st body (Json (Some d))) rm s) = None \<and>
         fire (pollTick (Response st body (Json (Some d))) rm s) =
           pollTick (Response st body (Json (Some d))) rm s"
proof -
  let ?s' = "pollTick (Response st body (Json (Some d))) rm s"
  have "interval ?s' = None"
    using assms
    by (simp add: pollTick_def deliver_def fire_def effects_def interval_modelEffect
        pollingEffect_def pollResume_def clearInterval_def task_id_of_def)
  then show ?thesis
    by (simp add: fire_def)
qed

text \<open>
  C4. The claim fails on the code when two poll requests are outstanding at once, which
  happens whenever a response takes longer than the timer's period: the timer does not
  wait for the callback it started. Here the timer fires twice; the second request is
  answered first, with SUCCEEDED, which is recorded and clears the timer; then the answer
  to the first request arrives, with IN_PROGRESS, and replaces the terminal state. No
  timer is live afterwards, and no poll request is issued after the terminal response.
\<close>

theorem late_poll_response_replaces_terminal_state:
  "status_of (task (deliver 1 (example_ok (example_job ''SUCCEEDED'' 100)) example_not_found
      (fire (fire example_started)))) = Some ''SUCCEEDED'' \<and>
   interval (deliver 1 (example_ok (example_job ''SUCCEEDED'' 100)) example_not_found
      (fire (fire example_started))) = None \<and>
   task (deliver 0 (example_ok (example_job ''IN_PROGRESS'' 40)) example_not_found
      (deliver 1 (example_ok (example_job ''SUCCEEDED'' 100)) example_not_found
         (fire (fire example_started)))) = example_job ''IN_PROGRESS'' 40 \<and>
   interval (deliver 0 (example_ok (example_job ''IN_PROGRESS'' 40)) example_not_found
      (deliver 1 (example_ok (example_job ''SUCCEEDED'' 100)) example_not_found
         (fire (fire example_started)))) = None \<and>
   polls (deliver 0 (example_ok (example_job ''IN_PROGRESS'' 40)) example_not_found
      (deliver 1 (example_ok (example_job ''SUCCEEDED'' 100)) example_not_found
         (fire (fire example_started)))) = polls (fire (fire example_started))"
  by code_simp

text \<open>
  C5 (as amended). The fetch of the final model is not tied to the status SUCCEEDED: it
  is issued once at every poll response that changes the job's gallery_item_id or status
  while the gallery_item_id is truthy, and at no other poll response. The outcome of the
  fetch never touches the recorded job, so the status the response reported stays, and a
  failed fetch leaves the model as it was.
\<close>

theorem model_fetch_follows_task_changes:
  assumes "interval s = Some (h, tid)" and "ok st"
  shows "model_fetches (pollTick (Response st body (Json (Some d))) rm s) =
           model_fetches s +
             (if truthy_num (gallery_item_id d) \<and>
                 (gallery_item_id d \<noteq> gallery_item_id_of (task s) \<or> status d \<noteq> status_of (task s))
              then 1 else 0) \<and>
         status_of (task (pollTick (Response st body (Json (Some d))) rm s)) = status d \<and>
         (transport_failed rm \<longrightarrow>
            model (pollTick (Response st body (Json (Some d))) rm s) = model s)"
proof -
  let ?s' = "pollTick (Response st body (Json (Some d))) rm s"
  have t: "task ?s' = Some d"
    using assms
    by (simp add: pollTick_def deliver_def fire_def task_effects task_pollResume_ok)
  have r: "model_fetches ?s' =
           model_fetches s +
             (if truthy_num (gallery_item_id d) \<and>
                 (gallery_item_id d \<noteq> gallery_item_id_of (task s) \<or> status d \<noteq> status_of (task s))
              then 1 else 0)"
    using assms
    by (auto simp: pollTick_def deliver_def fire_def effects_def requests_modelEffect
        task_pollingEffect requests_pollingEffect task_pollResume_ok requests_pollResume
        model_fetches_def truthy_num_def gallery_item_id_of_def status_of_def
        split: option.splits)
  have m: "transport_failed rm \<longrightarrow> model ?s' = model s"
    using assms
    by (simp add: pollTick_def deliver_def fire_def effects_def model_modelEffect_failed
        model_pollingEffect model_pollResume)
  from t r m show ?thesis
    by (simp add: status_of_def)
qed

theorem model_fetch_follows_task_changes_witness:
  "interval example_started = Some (0, ''t1'') \<and> ok 200 \<and>
   model_fetches (pollTick (Response 200 [] (Json (example_job ''IN_PROGRESS'' 40)))
      example_not_found example_started) = model_fetches example_started + 1 \<and>
   status_of (task (pollTick (Response 200 [] (Json (example_job ''IN_PROGRESS'' 40)))
      example_not_found example_started)) = Some ''IN_PROGRESS''"
proof -
  have a: "interval example_started = Some (0, ''t1'')"
    by code_simp
  have b: "ok 200"
    by (simp add: ok_def)
  have c: "status_of (task example_started) = Some ''PENDING''"
    by code_simp
  from model_fetch_follows_task_changes [OF a b, of "[]"
      "\<lparr>task_id = Some ''t1'', status = Some ''IN_PROGRESS'', progress = Some 40,
        error_message = None, gallery_item_id = Some 1\<rparr>" example_not_found] a b c
  show ?thesis
    by (simp add: example_job_def truthy_num_def)
qed

text \<open>
  C5 as stated fails: with a job that carries its gallery_item_id from the start, the
  model is fetched when the job is recorded as PENDING, again when a poll reports
  IN_PROGRESS, and a third time when a poll reports SUCCEEDED.
\<close>

theorem model_fetched_before_success:
  "status_of (task example_started) = Some ''PENDING'' \<and>
   model_fetches example_started = 1 \<and>
   status_of (task (pollTick (example_ok (example_job ''IN_PROGRESS'' 40)) example_not_found
      example_started)) = Some ''IN_PROGRESS'' \<and>
   model_fetches (pollTick (example_ok (example_job ''IN_PROGRESS'' 40)) example_not_found
      example_started) = 2 \<and>
   model_fetches (pollTick (example_ok (example_job ''SUCCEEDED'' 100)) example_not_found
      (pollTick (example_ok (example_job ''IN_PROGRESS'' 40)) example_not_found
         example_started)) = 3"
  by code_simp

section \<open>Facts about starting a finalization job\<close>

lemma live_job_iff:
  "live_job g reg \<longleftrightarrow>
     (\<exists>j \<in> set (jobs reg). galleryItemId j = g \<and> (job_status j = PENDING \<or> job_status j = IN_PROGRESS))"
  by (auto simp: live_job_def jobs_of_def non_terminal_def list_ex_iff)

lemma start_finalization_conflict:
  assumes "galleryItems reg g \<noteq> None" and "j \<in> set (jobs reg)" and "galleryItemId j = g"
    and "job_status j = PENDING \<or> job_status j = IN_PROGRESS"
  shows "start_finalization tid g reg = (Inl ConflictError, reg)"
proof -
  have "live_job g reg"
    using assms(2-4) unfolding live_job_iff by blast
  with assms(1) show ?thesis
    by (simp add: start_finalization_def)
qed

lemma start_finalization_accept:
  assumes "galleryItems reg g \<noteq> None"
    and "\<forall>j \<in> set (jobs reg). galleryItemId j = g \<longrightarrow> job_status j = SUCCEEDED \<or> job_status j = FAILED"
  shows "start_finalization tid g reg =
           (Inr \<lparr>taskId = tid, galleryItemId = g, job_status = PENDING, job_progress = 0,
                 errorMessage = None\<rparr>,
            reg\<lparr>jobs := jobs reg @
              [\<lparr>taskId = tid, galleryItemId = g, job_status = PENDING, job_progress = 0,
                errorMessage = None\<rparr>]\<rparr>)"
proof -
  have "\<not> live_job g reg"
    using assms(2) unfolding live_job_iff by auto
  with assms(1) show ?thesis
    by (simp add: start_finalization_def Let_def)
qed

lemma live_filter_terminal:
  assumes "\<forall>j \<in> set js. galleryItemId j = g \<longrightarrow> job_status j = SUCCEEDED \<or> job_status j = FAILED"
  shows "filter (\<lambda>j. galleryItemId j = g \<and> (job_status j = PENDING \<or> job_status j = IN_PROGRESS)) js = []"
  using assms by (auto simp: filter_empty_conv)

lemma task_startTask_not_ok:
  "\<not> ok st \<Longrightarrow> task (startTask (Response st body js) rm s) = task s"
  by (simp add: startTask_def Let_def try_fetch_json_not_ok effects_same_task split: option.splits)

lemma interval_startTask_not_ok:
  "\<not> ok st \<Longrightarrow> interval (startTask (Response st body js) rm s) = interval s"
  by (simp add: startTask_def Let_def try_fetch_json_not_ok effects_same_task split: option.splits)

text \<open>
  C2. In the backend's registry, a start for a gallery item that exists and has a job in
  state PENDING or IN_PROGRESS fails with ConflictError and leaves the registry as it
  was: no second job is created. When every job of the item is terminal (or it has none),
  the first start creates a job in state PENDING, and a second start for the same item
  then fails with ConflictError; after the two attempts the item has one job more than
  before, and exactly one job that is not terminal. On the page, a start that the backend
  refuses with a status that is not 2xx leaves the recorded task and its timer as they
  were.
\<close>

theorem second_start_is_rejected:
  assumes "galleryItems reg g \<noteq> None"
  shows "(\<forall>j \<in> set (jobs reg).
            galleryItemId j = g \<and> (job_status j = PENDING \<or> job_status j = IN_PROGRESS) \<longrightarrow>
            start_finalization tid2 g reg = (Inl ConflictError, reg)) \<and>
         ((\<forall>j \<in> set (jobs reg).
             galleryItemId j = g \<longrightarrow> job_status j = SUCCEEDED \<or> job_status j = FAILED) \<longrightarrow>
            start_finalization tid1 g reg =
              (Inr \<lparr>taskId = tid1, galleryItemId = g, job_status = PENDING, job_progress = 0,
                    errorMessage = None\<rparr>,
               reg\<lparr>jobs := jobs reg @
                 [\<lparr>taskId = tid1, galleryItemId = g, job_status = PENDING, job_progress = 0,
                   errorMessage = None\<rparr>]\<rparr>) \<and>
            start_finalization tid2 g (snd (start_finalization tid1 g reg)) =
              (Inl ConflictError, snd (start_finalization tid1 g reg)) \<and>
            filter (\<lambda>j. galleryItemId j = g)
                (jobs (snd (start_finalization tid2 g (snd (start_finalization tid1 g reg))))) =
              filter (\<lambda>j. galleryItemId j = g) (jobs reg) @
                [\<lparr>taskId = tid1, galleryItemId = g, job_status = PENDING, job_progress = 0,
                  errorMessage = None\<rparr>] \<and>
            filter (\<lambda>j. galleryItemId j = g \<and> (job_status j = PENDING \<or> job_status j = IN_PROGRESS))
                (jobs (snd (start_finalization tid2 g (snd (start_finalization tid1 g reg))))) =
              [\<lparr>taskId = tid1, galleryItemId = g, job_status = PENDING, job_progress = 0,
                errorMessage = None\<rparr>]) \<and>
         (\<not> ok st \<longrightarrow>
            task (startTask (Response st body js) rm s) = task s \<and>
            interval (startTask (Response st body js) rm s) = interval s)"
proof -
  let ?j = "\<lparr>taskId = tid1, galleryItemId = g, job_status = PENDING, job_progress = 0,
             errorMessage = None\<rparr>"
  let ?reg1 = "reg\<lparr>jobs := jobs reg @ [?j]\<rparr>"
  have rule: "\<forall>j \<in> set (jobs reg).
            galleryItemId j = g \<and> (job_status j = PENDING \<or> job_status j = IN_PROGRESS) \<longrightarrow>
            start_finalization tid2 g reg = (Inl ConflictError, reg)"
    using assms by (blast intro: start_finalization_conflict)
  have page: "\<not> ok st \<longrightarrow>
            task (startTask (Response st body js) rm s) = task s \<and>
            interval (startTask (Response st body js) rm s) = interval s"
    by (simp add: task_startTask_not_ok interval_startTask_not_ok)
  have twice: "start_finalization tid1 g reg = (Inr ?j, ?reg1) \<and>
      start_finalization tid2 g (snd (start_finalization tid1 g reg)) =
        (Inl ConflictError, snd (start_finalization tid1 g reg)) \<and>
      filter (\<lambda>j. galleryItemId j = g)
          (jobs (snd (start_finalization tid2 g (snd (start_finalization tid1 g reg))))) =
        filter (\<lambda>j. galleryItemId j = g) (jobs reg) @ [?j] \<and>
      filter (\<lambda>j. galleryItemId j = g \<and> (job_status j = PENDING \<or> job_status j = IN_PROGRESS))
          (jobs (snd (start_finalization tid2 g (snd (start_finalization tid1 g reg))))) = [?j]"
    if fin: "\<forall>j \<in> set (jobs reg).
             galleryItemId j = g \<longrightarrow> job_status j = SUCCEEDED \<or> job_status j = FAILED"
  proof -
    have first: "start_finalization tid1 g reg = (Inr ?j, ?reg1)"
      using assms fin by (rule start_finalization_accept)
    have item1: "galleryItems ?reg1 g \<noteq> None"
      using assms by simp
    have second: "start_finalization tid2 g ?reg1 = (Inl ConflictError, ?reg1)"
      by (rule start_finalization_conflict [OF item1, of ?j]) simp_all
    have live: "filter (\<lambda>j. galleryItemId j = g \<and> (job_status j = PENDING \<or> job_status j = IN_PROGRESS))
        (jobs ?reg1) = [?j]"
      using live_filter_terminal [OF fin] by simp
    from first second live show ?thesis
      by simp
  qed
  from rule twice page show ?thesis
    by blast
qed

theorem second_start_is_rejected_witness:
  "galleryItems example_registry 1 \<noteq> None \<and> galleryItems example_registry_busy 1 \<noteq> None \<and>
   \<not> ok 409 \<and>
   start_finalization ''t2'' 1 example_registry_busy = (Inl ConflictError, example_registry_busy) \<and>
   start_finalization ''t2'' 1 (snd (start_finalization ''t1'' 1 example_registry)) =
     (Inl ConflictError, snd (start_finalization ''t1'' 1 example_registry)) \<and>
   filter (\<lambda>j. galleryItemId j = 1 \<and> (job_status j = PENDING \<or> job_status j = IN_PROGRESS))
       (jobs (snd (start_finalization ''t2'' 1 (snd (start_finalization ''t1'' 1 example_registry))))) =
     [\<lparr>taskId = ''t1'', galleryItemId = 1, job_status = PENDING, job_progress = 0,
       errorMessage = None\<rparr>] \<and>
   task (startTask (Response 409 ''Conflict'' (JsonThrows None)) example_not_found example_started) =
     task example_started \<and>
   interval (startTask (Response 409 ''Conflict'' (JsonThrows None)) example_not_found
     example_started) = interval example_started"
proof -
  have a: "galleryItems example_registry 1 \<noteq> None"
    by (simp add: example_registry_def)
  have b: "galleryItems example_registry_busy 1 \<noteq> None"
    by (simp add: example_registry_busy_def example_registry_def)
  have c: "\<not> ok 409"
    by (simp add: ok_def)
  have d: "\<forall>j \<in> set (jobs example_registry).
      galleryItemId j = 1 \<longrightarrow> job_status j = SUCCEEDED \<or> job_status j = FAILED"
    by (simp add: example_registry_def)
  have e: "jobs example_registry_busy =
     [\<lparr>taskId = ''t1'', galleryItemId = 1, job_status = IN_PROGRESS, job_progress = 40,
       errorMessage = None\<rparr>]"
    by (simp add: example_registry_busy_def)
  from second_start_is_rejected [OF b, of "''t2''" "''t1''" 409 "''Conflict''" "JsonThrows None"
      example_not_found example_started] e
  have busy: "start_finalization ''t2'' 1 example_registry_busy =
      (Inl ConflictError, example_registry_busy)"
    by simp
  from second_start_is_rejected [OF a, of "''t2''" "''t1''" 409 "''Conflict''" "JsonThrows None"
      example_not_found example_started] a b c d busy
  show ?thesis by blast
qed

section \<open>Facts about the 2D, prototype and gallery pages\<close>

text \<open>
  C6 (as amended). With a prompt that is empty or all white space, \<^verbatim>\<open>handleGenerate\<close>
  returns at its first line: the page state is unchanged, so no request is issued, no
  image is recorded and no error is reported.
\<close>

theorem blank_prompt_is_ignored:
  assumes "trim (prompt s) = []"
  shows "handleGenerate r s = s"
  using assms by (simp add: handleGenerate_def)

theorem blank_prompt_is_ignored_witness:
  "trim (prompt example_blank) = [] \<and>
   handleGenerate (example_ok ''image 2'') example_blank = example_blank"
proof -
  have a: "trim (prompt example_blank) = []"
    by code_simp
  from blank_prompt_is_ignored [OF a, of "example_ok ''image 2''"] a
  show ?thesis by simp
qed

text \<open>
  C6 as stated fails: a prompt of three blanks is white space only, and the page reports
  no error after \<^verbatim>\<open>handleGenerate\<close>.
\<close>

theorem blank_prompt_reports_no_error:
  "trim (prompt example_blank) = [] \<and>
   error (handleGenerate (example_ok ''image 2'') example_blank) = None"
  by code_simp

text \<open>
  C7. A successful refinement (non-blank refinement text, 2xx answer, parseable body) puts
  the new image in front of the recorded results; the results recorded before follow it,
  unchanged and in their order.
\<close>

theorem refine_adds_new_image:
  assumes "trim refinementText \<noteq> []" and "ok st"
  shows "results (handleRefine image_id refinementText (Response st body (Json data)) s) =
           data # results s"
  using assms by (simp add: handleRefine_def Let_def try_fetch_json_ok)

theorem refine_adds_new_image_witness:
  "trim ''more metallic'' \<noteq> [] \<and> ok 200 \<and>
   results (handleRefine 1 ''more metallic'' (Response 200 [] (Json ''image 2'')) example_twod) =
     [''image 2'', ''image 1'']"
proof -
  have a: "trim ''more metallic'' \<noteq> []"
    by code_simp
  have b: "ok 200"
    by (simp add: ok_def)
  have c: "results example_twod = [''image 1'']"
    by (simp add: example_twod_def example_blank_def)
  from refine_adds_new_image [OF a b, of 1 "[]" "''image 2''" example_twod] a b c
  show ?thesis by simp
qed

text \<open>
  C8. When the DELETE request completes, the gallery list afterwards is the list before
  without the items whose id is the given one: the id is gone, every other item is still
  there, unchanged and in its place, and the only request issued is the DELETE of that
  gallery item. In the backend's registry the deletion removes the GalleryItem row and
  nothing else: the Prototype and ConceptImage records are as before.
\<close>

theorem delete_removes_only_given_item:
  "items (handleDelete x (Response st body js) s) = filter (\<lambda>i. ident i \<noteq> x) (items s) \<and>
   x \<notin> ident ` set (items (handleDelete x (Response st body js) s)) \<and>
   (\<forall>i \<in> set (items s). ident i \<noteq> x \<longrightarrow> i \<in> set (items (handleDelete x (Response st body js) s))) \<and>
   requests (handleDelete x (Response st body js) s) = requests s @ [Delete_gallery x] \<and>
   galleryItems (snd (delete_gallery_item x reg)) = (galleryItems reg)(x := None) \<and>
   prototypes (snd (delete_gallery_item x reg)) = prototypes reg \<and>
   conceptImages (snd (delete_gallery_item x reg)) = conceptImages reg"
  by (auto simp: handleDelete_def delete_gallery_item_def Let_def)

theorem delete_removes_only_given_item_witness:
  "items (handleDelete 1 (Response 204 [] (JsonThrows None)) example_gallery) =
     [\<lparr>ident = 2\<rparr>, \<lparr>ident = 3\<rparr>] \<and>
   galleryItems (snd (delete_gallery_item 1 example_registry)) 1 = None \<and>
   prototypes (snd (delete_gallery_item 1 example_registry)) 1 = Some ''prototype 1'' \<and>
   conceptImages (snd (delete_gallery_item 1 example_registry)) 1 = Some ''a red cube''"
  using delete_removes_only_given_item [of 1 204 "[]" "JsonThrows None" example_gallery
      example_registry]
  by (simp add: example_gallery_def example_registry_def)

text \<open>
  C9. In each of the four stage handlers, once the guard of its first line has passed, a
  response whose status is not 2xx sets the page's error to the response's body text,
  and the handler has issued its one request and no other.
\<close>

theorem non_2xx_surfaces_body_without_retry:
  assumes "\<not> ok st"
  shows "(trim (prompt s2) \<noteq> [] \<longrightarrow>
            error (handleGenerate (Response st body js2) s2) = Some body \<and>
            requests (handleGenerate (Response st body js2) s2) =
              requests s2 @ [Post_generate_2d (prompt s2)
                 (if refinementNotes s2 = [] then None else Some (refinementNotes s2))]) \<and>
         (trim refinementText \<noteq> [] \<longrightarrow>
            error (handleRefine image_id refinementText (Response st body js2) s2) = Some body \<and>
            requests (handleRefine image_id refinementText (Response st body js2) s2) =
              requests s2 @ [Post_refine_2d image_id refinementText]) \<and>
         (imageId sp = Some iid \<and> iid \<noteq> [] \<longrightarrow>
            error (handleGeneratePrototype (Response st body jsp) sp) = Some body \<and>
            requests (handleGeneratePrototype (Response st body jsp) sp) =
              requests sp @ [Post_generate_shap_e iid]) \<and>
         (prototypeId sf = Some pid \<and> pid \<noteq> [] \<longrightarrow>
            error (startTask (Response st body jsf) rm sf) = Some body \<and>
            requests (startTask (Response st body jsf) rm sf) =
              requests sf @ [Post_generate_meshy pid])"
  using assms
  by (simp add: handleGenerate_def handleRefine_def handleGeneratePrototype_def startTask_def
      Let_def try_fetch_json_not_ok effects_same_task)

theorem non_2xx_surfaces_body_without_retry_witness:
  "\<not> ok 500 \<and>
   error (handleGenerate (Response 500 ''Internal Server Error'' (JsonThrows None)) example_twod) =
     Some ''Internal Server Error'' \<and>
   requests (handleGenerate (Response 500 ''Internal Server Error'' (JsonThrows None)) example_twod) =
     [Post_generate_2d ''a red cube'' None] \<and>
   error (handleRefine 1 ''more metallic'' (Response 500 ''Internal Server Error'' (JsonThrows None))
            example_twod) = Some ''Internal Server Error'' \<and>
   error (handleGeneratePrototype (Response 500 ''Internal Server Error'' (JsonThrows None))
            example_prototype_page) = Some ''Internal Server Error'' \<and>
   error (startTask (Response 500 ''Internal Server Error'' (JsonThrows None)) example_not_found
            (init_final (Some ''1''))) = Some ''Internal Server Error'' \<and>
   requests (startTask (Response 500 ''Internal Server Error'' (JsonThrows None)) example_not_found
            (init_final (Some ''1''))) = [Post_generate_meshy ''1'']"
proof -
  have a: "\<not> ok 500"
    by (simp add: ok_def)
  have b: "trim (prompt example_twod) \<noteq> []" "trim ''more metallic'' \<noteq> []"
    by code_simp+
  have c: "prompt example_twod = ''a red cube''" "refinementNotes example_twod = []"
    "requests example_twod = []"
    by (simp_all add: example_twod_def example_blank_def)
  have d: "imageId example_prototype_page = Some ''1''"
    "prototypeId (init_final (Some ''1'')) = Some ''1''"
    "requests (init_final (Some ''1'')) = []"
    by (simp_all add: example_prototype_page_def init_final_def)
  from non_2xx_surfaces_body_without_retry [OF a, of example_twod "''Internal Server Error''"
      "JsonThrows None" "''more metallic''" 1 example_prototype_page "''1''" "JsonThrows None"
      "init_final (Some ''1'')" "''1''" "JsonThrows None" example_not_found] a b c d
  show ?thesis by simp
qed

text \<open>
  C10. \<^verbatim>\<open>handleDelete\<close> never looks at the response: whatever its status, the items with
  the given id leave the displayed list. Only a \<^verbatim>\<open>fetch\<close> that throws leaves the list as
  it was.
\<close>

theorem delete_ignores_response_status:
  "items (handleDelete x (Response st body js) s) = filter (\<lambda>i. ident i \<noteq> x) (items s) \<and>
   items (handleDelete x (Threw m) s) = items s"
  by (simp add: handleDelete_def Let_def)

theorem delete_ignores_response_status_witness:
  "items (handleDelete 2 (Response 404 ''Not Found'' (JsonThrows None)) example_gallery) =
     [\<lparr>ident = 1\<rparr>, \<lparr>ident = 3\<rparr>] \<and>
   items (handleDelete 2 (Threw (Some ''Failed to fetch'')) example_gallery) =
     [\<lparr>ident = 1\<rparr>, \<lparr>ident = 2\<rparr>, \<lparr>ident = 3\<rparr>]"
  using delete_ignores_response_status [of 2 404 "''Not Found''" "JsonThrows None" example_gallery
      "Some ''Failed to fetch''"]
  by (simp add: example_gallery_def)

end
